theory Spec2Isabelle
  imports Main
begin

section \<open>Values at run time\<close>

text \<open>
  The chat session reads the completion reply out of a parsed JSON body with
  \<^verbatim>\<open>json.choices[0].message.content\<close>. TypeScript's \<^verbatim>\<open>as OpenAIResponse\<close> is erased at
  run time, so the body is any JSON value and each property read follows JavaScript:
  reading a property of \<^verbatim>\<open>undefined\<close> or \<^verbatim>\<open>null\<close> raises a TypeError, reading an absent
  property of anything else gives \<^verbatim>\<open>undefined\<close>. Numbers carry an integer only: no
  definition below inspects one. An object lists its properties, and where a name is
  listed twice the first entry is the property.
\<close>

datatype js =
    JUndefined
  | JNull
  | JBool bool
  | JNum int
  | JStr string
  | JArr "js list"
  | JObj "(string \<times> js) list"

datatype error =
  NetworkError | SyntaxError | TypeError | QueueSendError | InvalidCharacterError

text \<open>
  \<open>get_prop v k\<close> is \<^verbatim>\<open>v.k\<close> for the names this program reads: \<^verbatim>\<open>choices\<close>, \<^verbatim>\<open>message\<close> and
  \<^verbatim>\<open>content\<close> from a completion body, and \<^verbatim>\<open>type\<close>, \<^verbatim>\<open>name\<close>, \<^verbatim>\<open>email\<close>, \<^verbatim>\<open>phone\<close>,
  \<^verbatim>\<open>service\<close>, \<^verbatim>\<open>message\<close>, \<^verbatim>\<open>reply\<close>, \<^verbatim>\<open>page\<close>, \<^verbatim>\<open>timestamp\<close> and \<^verbatim>\<open>leadValue\<close> from a
  queue body. None of them is a property that arrays, strings, numbers, booleans or
  plain objects inherit. \<open>get_first v\<close> is \<^verbatim>\<open>v[0]\<close>.
\<close>

fun get_prop :: "js \<Rightarrow> string \<Rightarrow> error + js" where
  "get_prop JUndefined k = Inl TypeError"
| "get_prop JNull k = Inl TypeError"
| "get_prop (JObj kvs) k = Inr (case map_of kvs k of None \<Rightarrow> JUndefined | Some v \<Rightarrow> v)"
| "get_prop v k = Inr JUndefined"

fun get_first :: "js \<Rightarrow> error + js" where
  "get_first JUndefined = Inl TypeError"
| "get_first JNull = Inl TypeError"
| "get_first (JArr []) = Inr JUndefined"
| "get_first (JArr (x # xs)) = Inr x"
| "get_first (JStr []) = Inr JUndefined"
| "get_first (JStr (c # cs)) = Inr (JStr [c])"
| "get_first (JObj kvs) = Inr (case map_of kvs ''0'' of None \<Rightarrow> JUndefined | Some v \<Rightarrow> v)"
| "get_first v = Inr JUndefined"

text \<open>Sequencing of steps that may raise: the first error ends the computation.\<close>

definition and_then :: "error + 'a \<Rightarrow> ('a \<Rightarrow> error + 'b) \<Rightarrow> error + 'b" where
  "and_then r f = (case r of Inl e \<Rightarrow> Inl e | Inr v \<Rightarrow> f v)"

section \<open>Strings\<close>

text \<open>
  Strings are lists of 8-bit characters. \<^verbatim>\<open>toLowerCase\<close> is modelled on the letters A to Z;
  every keyword below is made of the letters a to z and the space, so the case mapping
  of any other character can neither create nor destroy a match.
  \<open>includes_str s k\<close> is \<^verbatim>\<open>s.includes(k)\<close>.
\<close>

definition lower_char :: "char \<Rightarrow> char" where
  "lower_char c =
     (let n = (of_char c :: nat) in if 65 \<le> n \<and> n \<le> 90 then char_of (n + 32) else c)"

definition toLowerCase :: "string \<Rightarrow> string" where
  "toLowerCase s = map lower_char s"

fun startsWith :: "string \<Rightarrow> string \<Rightarrow> bool" where
  "startsWith s [] = True"
| "startsWith [] (k # ks) = False"
| "startsWith (c # cs) (k # ks) = (c = k \<and> startsWith cs ks)"

fun includes_str :: "string \<Rightarrow> string \<Rightarrow> bool" where
  "includes_str [] k = startsWith [] k"
| "includes_str (c # cs) k = (startsWith (c # cs) k \<or> includes_str cs k)"

section \<open>The lead qualifier of the chat session\<close>

definition highValueKeywords :: "string list" where
  "highValueKeywords =
     [''commercial'', ''business'', ''office'', ''restaurant'', ''store'',
      ''whole house'', ''entire house'', ''multiple rooms'',
      ''exterior'', ''siding'', ''trim'',
      ''estimate'', ''quote'', ''price'', ''cost'',
      ''when can you start'', ''schedule'', ''appointment'',
      ''budget'', ''timeline'', ''project'']"

definition detectHighValueLead :: "string \<Rightarrow> js \<Rightarrow> bool" where
  "detectHighValueLead message reply =
     (let messageText = toLowerCase message
      in list_ex (\<lambda>keyword. includes_str messageText keyword) highValueKeywords)"

section \<open>Configuration and the outside world\<close>

text \<open>
  The optional bindings of \<^verbatim>\<open>Env\<close> that the code tests with \<^verbatim>\<open>!\<close>: a binding is in effect
  when it is present and not empty. \<open>or_else x d\<close> is \<^verbatim>\<open>x || d\<close> on an optional string.
  The two Twilio credentials are kept as lists of UTF-16 code units, because \<^verbatim>\<open>sendSMS\<close>
  hands them to \<^verbatim>\<open>btoa\<close>, which raises on a unit above 255; of the other bindings the code
  modelled here only tests whether they are set.
\<close>

record Env =
  SENDGRID_API_KEY :: "string option"
  TWILIO_ACCOUNT_SID :: "nat list option"
  TWILIO_AUTH_TOKEN :: "nat list option"
  TWILIO_PHONE_NUMBER :: "string option"
  GA_MEASUREMENT_ID :: "string option"
  GA_API_SECRET :: "string option"
  GOOGLE_ADS_CONVERSION_ID :: "string option"

definition truthy :: "'a list option \<Rightarrow> bool" where
  "truthy x = (case x of None \<Rightarrow> False | Some s \<Rightarrow> s \<noteq> [])"

definition or_else :: "string option \<Rightarrow> string \<Rightarrow> string" where
  "or_else x d = (case x of None \<Rightarrow> d | Some s \<Rightarrow> if s = [] then d else s)"

text \<open>
  \<^verbatim>\<open>btoa\<close> raises when its argument holds a code unit above 255; the encoded text is not
  kept. \<open>basic_credentials env\<close> is the argument \<^verbatim>\<open>sendSMS\<close> builds, the account SID, a
  colon and the token; it is built only when both are set.
\<close>

definition btoa :: "nat list \<Rightarrow> error + unit" where
  "btoa s = (if list_ex (\<lambda>c. 255 < c) s then Inl InvalidCharacterError else Inr ())"

definition basic_credentials :: "Env \<Rightarrow> nat list" where
  "basic_credentials env =
     (case TWILIO_ACCOUNT_SID env of None \<Rightarrow> [] | Some sid \<Rightarrow> sid)
     @ [58]
     @ (case TWILIO_AUTH_TOKEN env of None \<Rightarrow> [] | Some token \<Rightarrow> token)"

text \<open>
  An HTTP call either rejects (network error) or resolves with a response, of which the
  code reads \<^verbatim>\<open>ok\<close> and, for the completion call, the body parsed as JSON (\<open>None\<close> when
  the body is not JSON and \<^verbatim>\<open>json()\<close> rejects).
\<close>

datatype http_outcome = Rejects | Resolves bool "js option"

datatype role = System | User | Assistant

datatype request_content = SystemPrompt | Plain js | TextAndImage string string

record completion_request =
  model :: string
  messages :: "(role \<times> request_content) list"

record AnalyticsEvent =
  event_name :: string
  event_category :: string
  event_label :: string
  event_value :: "nat option"
  page_location :: js

datatype sms_template = EstimateSms bool | ChatLeadSms

datatype email_template = EstimateEmail bool | ChatLeadEmail | CallConversionEmail

text \<open>
  The requests sent to the three sinks, in the order they are issued. The rendered text
  of a notification is not kept, only the template it came from (the estimate templates
  with their urgency flag).
\<close>

datatype request = Twilio sms_template | SendGrid email_template | GA4 AnalyticsEvent

text \<open>
  What the collaborators answer. A sink is asked with the number of requests issued so
  far, so that each request can meet a different outcome.
\<close>

record world =
  ai_gateway :: "completion_request \<Rightarrow> http_outcome"
  queue_accepts :: bool
  now :: int
  twilio :: "nat \<Rightarrow> http_outcome"
  sendgrid :: "nat \<Rightarrow> http_outcome"
  ga4 :: "nat \<Rightarrow> http_outcome"

definition response_ok :: "http_outcome \<Rightarrow> bool" where
  "response_ok r = (case r of Rejects \<Rightarrow> False | Resolves ok body \<Rightarrow> ok)"

section \<open>Queue payloads\<close>

text \<open>
  The consumer is typed over the interface \<^verbatim>\<open>NotificationPayload\<close>, but the type is erased
  at run time and the body of a queue message is any JSON value. The record holds the
  ten properties the code reads off a body, each as the value found there
  (\<^verbatim>\<open>undefined\<close> when absent). \<open>read_body\<close> takes them off a JSON value; a body that is
  \<^verbatim>\<open>null\<close> or \<^verbatim>\<open>undefined\<close> has no properties to read (\<open>None\<close>), and a body that is a
  string, a number, a boolean or an array has none of the ten.
\<close>

record NotificationPayload =
  ptype :: js
  name :: js
  email :: js
  phone :: js
  service :: js
  message :: js
  reply :: js
  page :: js
  timestamp :: js
  leadValue :: js

definition property_of :: "js \<Rightarrow> string \<Rightarrow> js" where
  "property_of v k = (case get_prop v k of Inl e \<Rightarrow> JUndefined | Inr x \<Rightarrow> x)"

definition read_body :: "js \<Rightarrow> NotificationPayload option" where
  "read_body v =
     (if v = JUndefined \<or> v = JNull then None
      else Some \<lparr>ptype = property_of v ''type'', name = property_of v ''name'',
                 email = property_of v ''email'', phone = property_of v ''phone'',
                 service = property_of v ''service'', message = property_of v ''message'',
                 reply = property_of v ''reply'', page = property_of v ''page'',
                 timestamp = property_of v ''timestamp'',
                 leadValue = property_of v ''leadValue''\<rparr>)"

text \<open>
  The declared types of the interface: \<^verbatim>\<open>type\<close> one of the three literals, \<^verbatim>\<open>timestamp\<close> a
  number, \<^verbatim>\<open>leadValue\<close> absent or one of its three literals, every other property absent
  or a string.
\<close>

definition optional_string :: "js \<Rightarrow> bool" where
  "optional_string v = (case v of JUndefined \<Rightarrow> True | JStr s \<Rightarrow> True | _ \<Rightarrow> False)"

definition conforms :: "NotificationPayload \<Rightarrow> bool" where
  "conforms p =
     ((ptype p = JStr ''estimate_request'' \<or> ptype p = JStr ''high_value_chat_lead''
         \<or> ptype p = JStr ''call_conversion'')
      \<and> optional_string (name p) \<and> optional_string (email p) \<and> optional_string (phone p)
      \<and> optional_string (service p) \<and> optional_string (message p)
      \<and> optional_string (reply p) \<and> optional_string (page p)
      \<and> (case timestamp p of JNum n \<Rightarrow> True | _ \<Rightarrow> False)
      \<and> (leadValue p = JUndefined \<or> leadValue p = JStr ''high''
         \<or> leadValue p = JStr ''medium'' \<or> leadValue p = JStr ''low''))"

section \<open>Operations on values\<close>

text \<open>
  \<open>js_truthy\<close> is the truth value JavaScript gives a value and \<open>js_or a b\<close> is \<^verbatim>\<open>a || b\<close>.
  \<open>js_toLowerCase v\<close> is \<^verbatim>\<open>v.toLowerCase()\<close>: only a string has that method, on any other
  value the call raises. \<open>substring_call v\<close> is \<^verbatim>\<open>v?.substring(0, 100)\<close>, of which only
  the raising matters: \<^verbatim>\<open>undefined\<close> and \<^verbatim>\<open>null\<close> are skipped by \<^verbatim>\<open>?.\<close>, a string has the
  method, any other value raises.
\<close>

definition js_truthy :: "js \<Rightarrow> bool" where
  "js_truthy v =
     (case v of
        JUndefined \<Rightarrow> False
      | JNull \<Rightarrow> False
      | JBool b \<Rightarrow> b
      | JNum n \<Rightarrow> n \<noteq> 0
      | JStr s \<Rightarrow> s \<noteq> []
      | JArr xs \<Rightarrow> True
      | JObj kvs \<Rightarrow> True)"

definition js_or :: "js \<Rightarrow> js \<Rightarrow> js" where
  "js_or a b = (if js_truthy a then a else b)"

definition js_toLowerCase :: "js \<Rightarrow> error + string" where
  "js_toLowerCase v = (case v of JStr s \<Rightarrow> Inr (toLowerCase s) | _ \<Rightarrow> Inl TypeError)"

definition substring_call :: "js \<Rightarrow> error + unit" where
  "substring_call v =
     (case v of
        JUndefined \<Rightarrow> Inr ()
      | JNull \<Rightarrow> Inr ()
      | JStr s \<Rightarrow> Inr ()
      | _ \<Rightarrow> Inl TypeError)"

text \<open>
  Putting a value into a template literal, or handing it to \<^verbatim>\<open>new Date\<close>, converts it to
  a primitive. That raises for an object with a property of its own named
  \<^verbatim>\<open>toString\<close>, which in a JSON value is never a function and hides the inherited
  method, and for an array one of whose elements raises in the same way. \<open>renders vs\<close>
  is the rendering of a template that interpolates the values \<open>vs\<close>.
\<close>

fun ToString_raises :: "js \<Rightarrow> bool" where
  "ToString_raises (JObj kvs) = list_ex (\<lambda>kv. fst kv = ''toString'') kvs"
| "ToString_raises (JArr xs) = list_ex ToString_raises xs"
| "ToString_raises v = False"

definition renders :: "js list \<Rightarrow> error + unit" where
  "renders vs = (if list_ex ToString_raises vs then Inl TypeError else Inr ())"

section \<open>AnalyticsService\<close>

text \<open>
  \<^verbatim>\<open>trackGA4Event\<close> catches a rejected request and answers \<^verbatim>\<open>false\<close>; it never raises.
  Each function takes the requests issued so far and returns them extended.
\<close>

definition trackGA4Event ::
  "Env \<Rightarrow> world \<Rightarrow> AnalyticsEvent \<Rightarrow> request list \<Rightarrow> bool \<times> request list" where
  "trackGA4Event env w event tr =
     (if \<not> truthy (GA_MEASUREMENT_ID env) then (False, tr)
      else (response_ok (ga4 w (length tr)), tr @ [GA4 event]))"

definition trackGoogleAdsConversion ::
  "Env \<Rightarrow> world \<Rightarrow> string \<Rightarrow> nat option \<Rightarrow> request list \<Rightarrow> bool \<times> request list" where
  "trackGoogleAdsConversion env w conversionAction val tr =
     (if \<not> truthy (GOOGLE_ADS_CONVERSION_ID env) then (False, tr)
      else trackGA4Event env w
             \<lparr>event_name = ''conversion'', event_category = ''google_ads'',
              event_label = conversionAction, event_value = val,
              page_location = JUndefined\<rparr> tr)"

definition trackPhoneCall :: "Env \<Rightarrow> world \<Rightarrow> js \<Rightarrow> request list \<Rightarrow> request list" where
  "trackPhoneCall env w pg tr =
     (let tr1 = snd (trackGA4Event env w
                  \<lparr>event_name = ''phone_call'', event_category = ''engagement'',
                   event_label = ''click_to_call'', event_value = Some 50,
                   page_location = pg\<rparr> tr)
      in snd (trackGoogleAdsConversion env w ''phone_call_conversion'' (Some 50) tr1))"

text \<open>
  \<^verbatim>\<open>isCommercialLead\<close> and \<^verbatim>\<open>calculateLeadValue\<close> call \<^verbatim>\<open>toLowerCase\<close> on
  \<^verbatim>\<open>formData.service || ''\<close> and \<^verbatim>\<open>formData.message || ''\<close>, which raises when the
  property is neither falsy nor a string.
\<close>

definition AnalyticsService_isCommercialLead :: "NotificationPayload \<Rightarrow> error + bool" where
  "AnalyticsService_isCommercialLead formData =
     (let commercialKeywords =
            [''commercial'', ''business'', ''office'', ''restaurant'', ''store'',
             ''warehouse'', ''retail'']
      in and_then (js_toLowerCase (js_or (service formData) (JStr []))) (\<lambda>serviceText.
         and_then (js_toLowerCase (js_or (message formData) (JStr []))) (\<lambda>messageText.
         Inr (list_ex (\<lambda>keyword. includes_str serviceText keyword
                                 \<or> includes_str messageText keyword)
                commercialKeywords))))"

definition calculateLeadValue :: "NotificationPayload \<Rightarrow> error + nat" where
  "calculateLeadValue formData =
     and_then (AnalyticsService_isCommercialLead formData) (\<lambda>commercial.
     and_then (js_toLowerCase (js_or (service formData) (JStr []))) (\<lambda>svc.
     and_then (js_toLowerCase (js_or (message formData) (JStr []))) (\<lambda>msg.
     Inr (let v0 = 25;
              v1 = (if commercial then v0 + 75 else v0);
              v2 = (if includes_str svc ''exterior'' \<or> includes_str svc ''commercial''
                    then v1 + 50
                    else if includes_str svc ''interior'' \<or> includes_str svc ''cabinet''
                    then v1 + 25
                    else v1)
          in if includes_str msg ''urgent'' \<or> includes_str msg ''asap''
                \<or> includes_str msg ''soon''
             then v2 + 25 else v2))))"

text \<open>
  \<^verbatim>\<open>trackFormSubmission\<close> is \<^verbatim>\<open>async\<close>: what it raises reaches the caller that awaits it.
\<close>

definition trackFormSubmission ::
  "Env \<Rightarrow> world \<Rightarrow> NotificationPayload \<Rightarrow> js \<Rightarrow> request list
     \<Rightarrow> (error + unit) \<times> request list" where
  "trackFormSubmission env w formData pg tr =
     (case and_then (AnalyticsService_isCommercialLead formData)
             (\<lambda>isCommercial. calculateLeadValue formData) of
        Inl e \<Rightarrow> (Inl e, tr)
      | Inr leadVal \<Rightarrow>
          (let tr1 = snd (trackGA4Event env w
                       \<lparr>event_name = ''form_submit'', event_category = ''conversion'',
                        event_label = ''estimate_request'', event_value = Some leadVal,
                        page_location = pg\<rparr> tr)
           in (Inr (), snd (trackGoogleAdsConversion env w ''estimate_request_conversion''
                              (Some leadVal) tr1))))"

definition trackBusinessEvent ::
  "Env \<Rightarrow> world \<Rightarrow> string \<Rightarrow> string \<Rightarrow> string \<Rightarrow> nat option \<Rightarrow> request list \<Rightarrow> request list" where
  "trackBusinessEvent env w eventName category label val tr =
     snd (trackGA4Event env w
            \<lparr>event_name = eventName, event_category = category, event_label = label,
             event_value = val, page_location = JUndefined\<rparr> tr)"

text \<open>
  \<^verbatim>\<open>trackChatInteraction\<close> reads \<^verbatim>\<open>reply.length\<close> while it builds the event, which raises
  when the reply is \<^verbatim>\<open>undefined\<close> or \<^verbatim>\<open>null\<close>; the function is \<^verbatim>\<open>async\<close>, so its caller gets
  a rejected promise, not an exception.
\<close>

definition trackChatInteraction ::
  "Env \<Rightarrow> world \<Rightarrow> string \<Rightarrow> js \<Rightarrow> string \<Rightarrow> string \<Rightarrow> bool \<Rightarrow> request list
     \<Rightarrow> (error + unit) \<times> request list" where
  "trackChatInteraction env w msg rep pg sessionId isHighValue tr =
     (let engagementValue = (if isHighValue then 25 else 5)
      in if rep = JUndefined \<or> rep = JNull then (Inl TypeError, tr)
         else
           (let tr1 = snd (trackGA4Event env w
                        \<lparr>event_name = ''chat_interaction'', event_category = ''engagement'',
                         event_label = (if isHighValue then ''high_value_chat'' else ''chat_message''),
                         event_value = Some engagementValue, page_location = JStr pg\<rparr> tr)
            in if isHighValue
               then (Inr (), snd (trackGoogleAdsConversion env w ''chat_engagement_conversion''
                                    (Some engagementValue) tr1))
               else (Inr (), tr1)))"

section \<open>ChatSession\<close>

text \<open>
  A turn as stored under the key \<^verbatim>\<open>history\<close>. The assistant's content is whatever the
  completion body held at \<^verbatim>\<open>choices[0].message.content\<close>.
\<close>

record turn =
  turn_role :: role
  turn_content :: js

record HighValueChatLead =
  lead_message :: string
  lead_reply :: js
  lead_page :: string
  lead_timestamp :: int

text \<open>
  The state one chat request can change: the session's storage (\<open>None\<close> before the first
  write), the messages accepted by the notification queue, and the analytics requests of
  the task handed to \<^verbatim>\<open>waitUntil\<close>. Reads and writes of the session's own storage are
  taken to succeed.
\<close>

record session =
  session_id :: string
  stored_history :: "turn list option"
  notify_queue :: "HighValueChatLead list"
  background :: "request list"

record chat_response =
  resp_reply :: js
  resp_sessionId :: string
  resp_isHighValue :: bool

definition build_payload ::
  "turn list \<Rightarrow> string \<Rightarrow> string option \<Rightarrow> string option \<Rightarrow> completion_request" where
  "build_payload history msg pg imageUrl =
     (let userText = msg @ '' (from '' @ or_else pg ''website'' @ '')''
      in \<lparr>model = ''gpt-4o'',
          messages =
            [(System, SystemPrompt)]
            @ map (\<lambda>t. (turn_role t, Plain (turn_content t))) history
            @ [(User, if truthy imageUrl then TextAndImage userText (or_else imageUrl [])
                      else Plain (JStr userText))]\<rparr>)"

text \<open>
  The completion call up to the reply: the request, \<^verbatim>\<open>aiResponse.json()\<close> and
  \<^verbatim>\<open>json.choices[0].message.content\<close>. The response's status is not read.
\<close>

definition read_reply :: "js \<Rightarrow> error + js" where
  "read_reply json =
     and_then (get_prop json ''choices'') (\<lambda>choices.
     and_then (get_first choices) (\<lambda>choice.
     and_then (get_prop choice ''message'') (\<lambda>m.
     get_prop m ''content'')))"

definition completion :: "world \<Rightarrow> completion_request \<Rightarrow> error + js" where
  "completion w payload =
     (case ai_gateway w payload of
        Rejects \<Rightarrow> Inl NetworkError
      | Resolves ok body \<Rightarrow>
          (case body of
             None \<Rightarrow> Inl SyntaxError
           | Some json \<Rightarrow> read_reply json))"

text \<open>\<^verbatim>\<open>await this.state.storage.get('history') || []\<close>\<close>

definition load_history :: "session \<Rightarrow> turn list" where
  "load_history s = (case stored_history s of None \<Rightarrow> [] | Some h \<Rightarrow> h)"

text \<open>
  \<^verbatim>\<open>ChatSession.fetch\<close>, after the request body was destructured into \<^verbatim>\<open>message\<close>, \<^verbatim>\<open>page\<close>
  and \<^verbatim>\<open>imageUrl\<close>. An exception leaves through \<open>Inl\<close> with the state reached so far.
\<close>

definition ChatSession_fetch ::
  "Env \<Rightarrow> world \<Rightarrow> session \<Rightarrow> string \<Rightarrow> string option \<Rightarrow> string option
     \<Rightarrow> (error + chat_response) \<times> session" where
  "ChatSession_fetch env w s msg pg imageUrl =
     (let history = load_history s;
          payload = build_payload history msg pg imageUrl
      in case completion w payload of
           Inl e \<Rightarrow> (Inl e, s)
         | Inr rep \<Rightarrow>
             (let isHighValueLead = detectHighValueLead msg rep
              in if isHighValueLead \<and> \<not> queue_accepts w then (Inl QueueSendError, s)
                 else
                   (let s1 = (if isHighValueLead
                              then s\<lparr>notify_queue := notify_queue s @
                                     [\<lparr>lead_message = msg, lead_reply = rep,
                                       lead_page = or_else pg ''unknown'',
                                       lead_timestamp = now w\<rparr>]\<rparr>
                              else s);
                        sessionId = session_id s;
                        s2 = s1\<lparr>background :=
                                 snd (trackChatInteraction env w msg rep (or_else pg ''unknown'')
                                        sessionId False (background s1))\<rparr>;
                        updatedHistory =
                          history @ [\<lparr>turn_role = User, turn_content = JStr msg\<rparr>,
                                     \<lparr>turn_role = Assistant, turn_content = rep\<rparr>];
                        s3 = s2\<lparr>stored_history := Some updatedHistory\<rparr>
                    in (Inr \<lparr>resp_reply = rep, resp_sessionId = sessionId,
                             resp_isHighValue = isHighValueLead\<rparr>, s3))))"

section \<open>NotificationService\<close>

text \<open>
  \<^verbatim>\<open>sendSMS\<close> and \<^verbatim>\<open>sendEmail\<close> return early when the sink is not configured, and turn a
  rejected request into \<^verbatim>\<open>false\<close>. In \<^verbatim>\<open>sendSMS\<close> the call of \<^verbatim>\<open>btoa\<close> stands before the
  \<^verbatim>\<open>try\<close>, so what it raises leaves the function. A request is recorded when \<^verbatim>\<open>fetch\<close> is
  called.
\<close>

definition sendSMS ::
  "Env \<Rightarrow> world \<Rightarrow> sms_template \<Rightarrow> request list \<Rightarrow> (error + bool) \<times> request list" where
  "sendSMS env w smsMessage tr =
     (if \<not> truthy (TWILIO_ACCOUNT_SID env) \<or> \<not> truthy (TWILIO_AUTH_TOKEN env)
         \<or> \<not> truthy (TWILIO_PHONE_NUMBER env)
      then (Inr False, tr)
      else (case btoa (basic_credentials env) of
              Inl e \<Rightarrow> (Inl e, tr)
            | Inr auth \<Rightarrow> (Inr (response_ok (twilio w (length tr))), tr @ [Twilio smsMessage])))"

definition sendEmail ::
  "Env \<Rightarrow> world \<Rightarrow> email_template \<Rightarrow> request list \<Rightarrow> bool \<times> request list" where
  "sendEmail env w emailBody tr =
     (if \<not> truthy (SENDGRID_API_KEY env) then (False, tr)
      else (response_ok (sendgrid w (length tr)), tr @ [SendGrid emailBody]))"

definition isCommercialLead :: "NotificationPayload \<Rightarrow> error + bool" where
  "isCommercialLead payload =
     (let commercialKeywords =
            [''commercial'', ''business'', ''office'', ''restaurant'', ''store'',
             ''warehouse'', ''retail'']
      in and_then (js_toLowerCase (js_or (service payload) (JStr []))) (\<lambda>serviceText.
         and_then (js_toLowerCase (js_or (message payload) (JStr []))) (\<lambda>messageText.
         Inr (list_ex (\<lambda>keyword. includes_str serviceText keyword
                                 \<or> includes_str messageText keyword)
                commercialKeywords))))"

text \<open>
  The priority flag of \<^verbatim>\<open>processNotification\<close>. \<^verbatim>\<open>||\<close> evaluates \<^verbatim>\<open>isCommercialLead\<close> only
  when the two comparisons before it are false.
\<close>

definition isHighPriority :: "NotificationPayload \<Rightarrow> error + bool" where
  "isHighPriority payload =
     (if ptype payload = JStr ''high_value_chat_lead'' then Inr True
      else if leadValue payload = JStr ''high'' then Inr True
      else isCommercialLead payload)"

text \<open>
  The handlers render their templates first, then call the sinks. The estimate
  templates interpolate name, phone, service, email, message and the date made of the
  timestamp; the chat lead templates the preview of the message, then page, message,
  reply and the date; the call conversion template page and the date.
\<close>

definition handleEstimateNotification ::
  "Env \<Rightarrow> world \<Rightarrow> NotificationPayload \<Rightarrow> bool \<Rightarrow> request list
     \<Rightarrow> (error + unit) \<times> request list" where
  "handleEstimateNotification env w payload highPriority tr =
     (case renders [name payload, phone payload, service payload,
                    name payload, email payload, phone payload, phone payload,
                    service payload, message payload, timestamp payload, phone payload] of
        Inl e \<Rightarrow> (Inl e, tr)
      | Inr u \<Rightarrow>
          if highPriority
          then (case sendSMS env w (EstimateSms highPriority) tr of
                  (Inl e, tr1) \<Rightarrow> (Inl e, tr1)
                | (Inr sent, tr1) \<Rightarrow>
                    (Inr (), snd (sendEmail env w (EstimateEmail highPriority) tr1)))
          else (Inr (), snd (sendEmail env w (EstimateEmail highPriority) tr)))"

definition handleChatLeadNotification ::
  "Env \<Rightarrow> world \<Rightarrow> NotificationPayload \<Rightarrow> request list
     \<Rightarrow> (error + unit) \<times> request list" where
  "handleChatLeadNotification env w payload tr =
     (case and_then (substring_call (message payload))
             (\<lambda>u. renders [page payload, message payload, reply payload, timestamp payload]) of
        Inl e \<Rightarrow> (Inl e, tr)
      | Inr u \<Rightarrow>
          (case sendSMS env w ChatLeadSms tr of
             (Inl e, tr1) \<Rightarrow> (Inl e, tr1)
           | (Inr sent, tr1) \<Rightarrow> (Inr (), snd (sendEmail env w ChatLeadEmail tr1))))"

definition handleCallConversion ::
  "Env \<Rightarrow> world \<Rightarrow> NotificationPayload \<Rightarrow> request list
     \<Rightarrow> (error + unit) \<times> request list" where
  "handleCallConversion env w payload tr =
     (case renders [page payload, timestamp payload] of
        Inl e \<Rightarrow> (Inl e, tr)
      | Inr u \<Rightarrow> (Inr (), snd (sendEmail env w CallConversionEmail tr)))"

text \<open>
  \<^verbatim>\<open>processNotification\<close> reads \<^verbatim>\<open>payload.type\<close> first, which raises on a body that is
  \<^verbatim>\<open>null\<close> or \<^verbatim>\<open>undefined\<close>, and computes the priority flag before it looks at the type
  again. A type that is none of the three falls through the chain of \<^verbatim>\<open>if\<close>s: nothing is
  sent.
\<close>

definition processNotification ::
  "Env \<Rightarrow> world \<Rightarrow> NotificationPayload option \<Rightarrow> request list
     \<Rightarrow> (error + unit) \<times> request list" where
  "processNotification env w body tr =
     (case body of
        None \<Rightarrow> (Inl TypeError, tr)
      | Some payload \<Rightarrow>
          (case isHighPriority payload of
             Inl e \<Rightarrow> (Inl e, tr)
           | Inr highPriority \<Rightarrow>
               if ptype payload = JStr ''estimate_request''
               then handleEstimateNotification env w payload highPriority tr
               else if ptype payload = JStr ''high_value_chat_lead''
               then handleChatLeadNotification env w payload tr
               else if ptype payload = JStr ''call_conversion''
               then handleCallConversion env w payload tr
               else (Inr (), tr)))"

section \<open>The queue consumer\<close>

datatype disposition = Ack | Retry

text \<open>
  One turn of the loop in \<^verbatim>\<open>queue\<close>: the body of the \<^verbatim>\<open>try\<close> ends in \<^verbatim>\<open>message.ack()\<close>,
  the \<^verbatim>\<open>catch\<close> calls \<^verbatim>\<open>message.retry()\<close>. The arguments of \<^verbatim>\<open>trackBusinessEvent\<close> hold
  \<^verbatim>\<open>payload.message?.substring(0, 100)\<close>, evaluated before the call.
\<close>

definition queue_message ::
  "Env \<Rightarrow> world \<Rightarrow> NotificationPayload option \<Rightarrow> request list
     \<Rightarrow> disposition \<times> request list" where
  "queue_message env w body tr =
     (case processNotification env w body tr of
        (Inl e, tr1) \<Rightarrow> (Retry, tr1)
      | (Inr u, tr1) \<Rightarrow>
          (case body of
             None \<Rightarrow> (Retry, tr1)
           | Some payload \<Rightarrow>
               if ptype payload = JStr ''estimate_request''
               then (case trackFormSubmission env w payload
                            (js_or (page payload) (JStr ''unknown'')) tr1 of
                       (Inl e, tr2) \<Rightarrow> (Retry, tr2)
                     | (Inr v, tr2) \<Rightarrow> (Ack, tr2))
               else if ptype payload = JStr ''high_value_chat_lead''
               then (case substring_call (message payload) of
                       Inl e \<Rightarrow> (Retry, tr1)
                     | Inr v \<Rightarrow>
                         (Ack, trackBusinessEvent env w ''high_value_chat_detected''
                                 ''lead_qualification'' ''chat_engagement'' (Some 25) tr1))
               else if ptype payload = JStr ''call_conversion''
               then (Ack, trackPhoneCall env w (js_or (page payload) (JStr ''unknown'')) tr1)
               else (Ack, tr1)))"

text \<open>The loop over the batch; each message body is read as \<open>read_body\<close> describes.\<close>

fun queue ::
  "Env \<Rightarrow> world \<Rightarrow> js list \<Rightarrow> request list \<Rightarrow> disposition list \<times> request list" where
  "queue env w [] tr = ([], tr)"
| "queue env w (body # rest) tr =
     (let (d, tr1) = queue_message env w (read_body body) tr;
          (ds, tr2) = queue env w rest tr1
      in (d # ds, tr2))"

section \<open>Concrete inputs\<close>

text \<open>
  Configurations, collaborators, a fresh session and payloads on which the theorems
  below are instantiated. \<open>units s\<close> are the code units of an 8-bit string.
\<close>

definition units :: "string \<Rightarrow> nat list" where
  "units s = map of_char s"

definition env_configured :: Env where
  "env_configured =
     \<lparr>SENDGRID_API_KEY = Some ''SG.key'', TWILIO_ACCOUNT_SID = Some (units ''AC1''),
      TWILIO_AUTH_TOKEN = Some (units ''token''), TWILIO_PHONE_NUMBER = Some ''+12515550100'',
      GA_MEASUREMENT_ID = Some ''G-1'', GA_API_SECRET = Some ''secret'',
      GOOGLE_ADS_CONVERSION_ID = Some ''AW-1''\<rparr>"



definition completion_body :: "js \<Rightarrow> js" where
  "completion_body m = JObj [(''choices'', JArr [JObj [(''message'', m)]])]"

definition assistant_says :: "string \<Rightarrow> js" where
  "assistant_says r = completion_body (JObj [(''role'', JStr ''assistant''), (''content'', JStr r)])"

definition world_up :: world where
  "world_up =
     \<lparr>ai_gateway = (\<lambda>payload. Resolves True (Some (assistant_says ''Happy to help.''))),
      queue_accepts = True,
      now = 1700000000000,
      twilio = (\<lambda>n. Resolves True None),
      sendgrid = (\<lambda>n. Resolves True None),
      ga4 = (\<lambda>n. Resolves True None)\<rparr>"

definition world_status_500 :: world where
  "world_status_500 =
     world_up\<lparr>ai_gateway := (\<lambda>payload. Resolves False (Some (assistant_says ''Happy to help.'')))\<rparr>"

definition world_no_content :: world where
  "world_no_content =
     world_up\<lparr>ai_gateway :=
       (\<lambda>payload. Resolves True (Some (completion_body (JObj [(''role'', JStr ''assistant'')]))))\<rparr>"

definition world_error_body :: world where
  "world_error_body =
     world_up\<lparr>ai_gateway :=
       (\<lambda>payload. Resolves False (Some (JObj [(''error'', JObj [(''message'', JStr ''overloaded'')])])))\<rparr>"

definition world_queue_down :: world where
  "world_queue_down = world_up\<lparr>queue_accepts := False\<rparr>"

definition world_sms_down :: world where
  "world_sms_down = world_up\<lparr>twilio := (\<lambda>n. Rejects)\<rparr>"

definition world_ga_down :: world where
  "world_ga_down = world_up\<lparr>ga4 := (\<lambda>n. Rejects)\<rparr>"

definition world_terse :: world where
  "world_terse = world_up\<lparr>ai_gateway := (\<lambda>payload. Resolves True (Some (assistant_says ''No.'')))\<rparr>"

definition fresh_session :: session where
  "fresh_session =
     \<lparr>session_id = ''session-1'', stored_history = None, notify_queue = [], background = []\<rparr>"

definition returning_session :: session where
  "returning_session =
     fresh_session\<lparr>stored_history :=
       Some [\<lparr>turn_role = User, turn_content = JStr ''Hi''\<rparr>,
             \<lparr>turn_role = Assistant, turn_content = JStr ''Hello!''\<rparr>]\<rparr>"




definition body_flagged :: js where
  "body_flagged =
     JObj [(''type'', JStr ''estimate_request''), (''name'', JStr ''Pat''),
           (''email'', JStr ''pat@example.com''), (''phone'', JStr ''2515550101''),
           (''service'', JStr ''Interior Painting''), (''message'', JStr ''just curious''),
           (''timestamp'', JNum 1700000000000), (''leadValue'', JStr ''high'')]"

definition body_office :: js where
  "body_office =
     JObj [(''type'', JStr ''estimate_request''), (''name'', JStr ''Pat''),
           (''email'', JStr ''pat@example.com''), (''phone'', JStr ''2515550101''),
           (''service'', JStr ''Commercial''), (''message'', JStr ''Need our OFFICE painted''),
           (''timestamp'', JNum 1700000000000)]"

definition body_call :: js where
  "body_call =
     JObj [(''type'', JStr ''call_conversion''), (''page'', JStr ''/contact''),
           (''timestamp'', JNum 1700000000000), (''leadValue'', JStr ''high'')]"

definition body_chat_lead :: js where
  "body_chat_lead =
     JObj [(''type'', JStr ''high_value_chat_lead''),
           (''message'', JStr ''Do you paint warehouses?''), (''reply'', JStr ''We do.''),
           (''page'', JStr ''/services''), (''timestamp'', JNum 1700000000000)]"




definition payload_flagged :: NotificationPayload where
  "payload_flagged = the (read_body body_flagged)"

definition payload_office :: NotificationPayload where
  "payload_office = the (read_body body_office)"

definition payload_call :: NotificationPayload where
  "payload_call = the (read_body body_call)"

definition payload_chat_lead :: NotificationPayload where
  "payload_chat_lead = the (read_body body_chat_lead)"

section \<open>Substring matching\<close>

lemma startsWith_iff: "startsWith s k \<longleftrightarrow> (\<exists>t. s = k @ t)"
  by (induction s k rule: startsWith.induct) auto

lemma includes_str_iff: "includes_str s k \<longleftrightarrow> (\<exists>p t. s = p @ k @ t)"
proof (induction s)
  case Nil
  show ?case by (cases k) (auto simp: startsWith_iff)
next
  case (Cons c cs)
  show ?case
  proof
    assume "includes_str (c # cs) k"
    then consider "startsWith (c # cs) k" | "includes_str cs k" by auto
    then show "\<exists>p t. c # cs = p @ k @ t"
    proof cases
      case 1
      then obtain t where "c # cs = k @ t" by (auto simp: startsWith_iff)
      then have "c # cs = [] @ k @ t" by simp
      then show ?thesis by blast
    next
      case 2
      with Cons obtain p t where "cs = p @ k @ t" by blast
      then have "c # cs = (c # p) @ k @ t" by simp
      then show ?thesis by blast
    qed
  next
    assume "\<exists>p t. c # cs = p @ k @ t"
    then obtain p t where pt: "c # cs = p @ k @ t" by blast
    show "includes_str (c # cs) k"
    proof (cases p)
      case Nil
      with pt have "startsWith (c # cs) k" by (auto simp: startsWith_iff)
      then show ?thesis by simp
    next
      case (Cons a p')
      with pt have "cs = p' @ k @ t" by simp
      with Cons.IH have "includes_str cs k" by blast
      then show ?thesis by simp
    qed
  qed
qed

section \<open>The lead qualifier\<close>

lemma detect_iff:
  "detectHighValueLead m r \<longleftrightarrow>
     (\<exists>k \<in> set highValueKeywords. \<exists>p t. toLowerCase m = p @ k @ t)"
  by (simp add: detectHighValueLead_def list_ex_iff includes_str_iff)

lemma detect_commercial: "detectHighValueLead ''commercial'' r"
  unfolding detectHighValueLead_def by code_simp

lemma detect_building: "detectHighValueLead ''Commercial Building'' r"
  unfolding detectHighValueLead_def by code_simp

lemma detect_hello: "\<not> detectHighValueLead ''hello'' r"
  unfolding detectHighValueLead_def by code_simp

lemma keywords_lower_case: "list_all (\<lambda>k. toLowerCase k = k) highValueKeywords"
  by code_simp

text \<open>
  C5. The lead qualifier is a function of the message alone, so it is deterministic. It
  answers true exactly when the lower-cased message contains one of the keywords as a
  substring; the keywords are themselves in lower case, and two messages that differ
  only in the case of their letters get the same answer. Both \<open>commercial\<close> and
  \<open>Commercial Building\<close> qualify, whatever the reply.
\<close>

theorem lead_qualifier_substring_match:
  "(detectHighValueLead m r \<longleftrightarrow>
      (\<exists>k \<in> set highValueKeywords. \<exists>p t. toLowerCase m = p @ k @ t))
   \<and> list_all (\<lambda>k. toLowerCase k = k) highValueKeywords
   \<and> (toLowerCase m = toLowerCase m' \<longrightarrow> detectHighValueLead m r = detectHighValueLead m' r')
   \<and> detectHighValueLead ''commercial'' r
   \<and> detectHighValueLead ''Commercial Building'' r"
proof (intro conjI impI)
  show "detectHighValueLead m r \<longleftrightarrow>
      (\<exists>k \<in> set highValueKeywords. \<exists>p t. toLowerCase m = p @ k @ t)"
    by (rule detect_iff)
  show "list_all (\<lambda>k. toLowerCase k = k) highValueKeywords"
    by (rule keywords_lower_case)
  show "detectHighValueLead m r = detectHighValueLead m' r'" if "toLowerCase m = toLowerCase m'"
    using that by (simp add: detectHighValueLead_def)
  show "detectHighValueLead ''commercial'' r" by (rule detect_commercial)
  show "detectHighValueLead ''Commercial Building'' r" by (rule detect_building)
qed

theorem lead_qualifier_substring_match_witness:
  "toLowerCase ''OFFICE repaint'' = toLowerCase ''office REPAINT''
   \<and> detectHighValueLead ''OFFICE repaint'' JNull
   \<and> detectHighValueLead ''office REPAINT'' (JStr ''Sure'')"
proof -
  have e: "toLowerCase ''OFFICE repaint'' = toLowerCase ''office REPAINT''" by code_simp
  have k: "''office'' \<in> set highValueKeywords" by code_simp
  have "toLowerCase ''OFFICE repaint'' = [] @ ''office'' @ '' repaint''" by code_simp
  with k have ex: "\<exists>k \<in> set highValueKeywords. \<exists>p t. toLowerCase ''OFFICE repaint'' = p @ k @ t"
    by blast
  note t = lead_qualifier_substring_match
             [of "''OFFICE repaint''" JNull "''office REPAINT''" "JStr ''Sure''"]
  from t ex have a: "detectHighValueLead ''OFFICE repaint'' JNull" by blast
  from t e a have b: "detectHighValueLead ''office REPAINT'' (JStr ''Sure'')" by blast
  from e a b show ?thesis by blast
qed

section \<open>The chat session\<close>

lemma fetch_on_failure:
  "completion w (build_payload (load_history s) msg pg img) = Inl e \<Longrightarrow>
   ChatSession_fetch env w s msg pg img = (Inl e, s)"
  by (simp add: ChatSession_fetch_def Let_def)

lemma fetch_on_queue_failure:
  "completion w (build_payload (load_history s) msg pg img) = Inr r \<Longrightarrow>
   detectHighValueLead msg r \<Longrightarrow> \<not> queue_accepts w \<Longrightarrow>
   ChatSession_fetch env w s msg pg img = (Inl QueueSendError, s)"
  by (simp add: ChatSession_fetch_def Let_def)

lemma fetch_on_success:
  "completion w (build_payload (load_history s) msg pg img) = Inr r \<Longrightarrow>
   detectHighValueLead msg r \<longrightarrow> queue_accepts w \<Longrightarrow>
   fst (ChatSession_fetch env w s msg pg img)
     = Inr \<lparr>resp_reply = r, resp_sessionId = session_id s,
            resp_isHighValue = detectHighValueLead msg r\<rparr>
   \<and> stored_history (snd (ChatSession_fetch env w s msg pg img))
     = Some (load_history s @ [\<lparr>turn_role = User, turn_content = JStr msg\<rparr>,
                               \<lparr>turn_role = Assistant, turn_content = r\<rparr>])
   \<and> notify_queue (snd (ChatSession_fetch env w s msg pg img))
     = (if detectHighValueLead msg r
        then notify_queue s @ [\<lparr>lead_message = msg, lead_reply = r,
                                lead_page = or_else pg ''unknown'', lead_timestamp = now w\<rparr>]
        else notify_queue s)"
  by (auto simp add: ChatSession_fetch_def Let_def)

lemma completion_fails_iff:
  "isl (completion w p) \<longleftrightarrow>
     (ai_gateway w p = Rejects
      \<or> (\<exists>ok. ai_gateway w p = Resolves ok None)
      \<or> (\<exists>ok json. ai_gateway w p = Resolves ok (Some json) \<and> isl (read_reply json)))"
  by (auto simp: completion_def split: http_outcome.splits option.splits)

lemma up_replies: "completion world_up p = Inr (JStr ''Happy to help.'')"
  by (simp add: completion_def world_up_def read_reply_def and_then_def
        assistant_says_def completion_body_def)

lemma terse_replies: "completion world_terse p = Inr (JStr ''No.'')"
  by (simp add: completion_def world_terse_def world_up_def read_reply_def and_then_def
        assistant_says_def completion_body_def)

lemma queue_down_replies: "completion world_queue_down p = Inr (JStr ''Happy to help.'')"
  by (simp add: completion_def world_queue_down_def world_up_def read_reply_def and_then_def
        assistant_says_def completion_body_def)

lemma error_body_fails: "completion world_error_body p = Inl TypeError"
  by (simp add: completion_def world_error_body_def world_up_def read_reply_def and_then_def)

text \<open>
  C1, as the code has it. A completion call fails when the request rejects, when the
  body is not JSON, or when reading \<^verbatim>\<open>choices[0].message.content\<close> raises; then the chat
  request fails with that error and the session, its persisted history included, is
  left as it was. More generally a chat request that fails for any reason leaves the
  session unchanged. The response's status plays no part, and a message without
  \<^verbatim>\<open>content\<close> does not raise.
\<close>

theorem failed_completion_keeps_session:
  "(completion w (build_payload (load_history s) msg pg img) = Inl e \<longrightarrow>
      ChatSession_fetch env w s msg pg img = (Inl e, s))
   \<and> (isl (fst (ChatSession_fetch env w s msg pg img)) \<longrightarrow>
      snd (ChatSession_fetch env w s msg pg img) = s)
   \<and> (isl (completion w p) \<longleftrightarrow>
        (ai_gateway w p = Rejects
         \<or> (\<exists>ok. ai_gateway w p = Resolves ok None)
         \<or> (\<exists>ok json. ai_gateway w p = Resolves ok (Some json) \<and> isl (read_reply json))))"
proof (intro conjI impI)
  show "ChatSession_fetch env w s msg pg img = (Inl e, s)"
    if "completion w (build_payload (load_history s) msg pg img) = Inl e"
    using that by (rule fetch_on_failure)
  show "snd (ChatSession_fetch env w s msg pg img) = s"
    if "isl (fst (ChatSession_fetch env w s msg pg img))"
    using that by (auto simp: ChatSession_fetch_def Let_def split: sum.splits if_splits)
  show "isl (completion w p) \<longleftrightarrow>
        (ai_gateway w p = Rejects
         \<or> (\<exists>ok. ai_gateway w p = Resolves ok None)
         \<or> (\<exists>ok json. ai_gateway w p = Resolves ok (Some json) \<and> isl (read_reply json)))"
    by (rule completion_fails_iff)
qed

theorem failed_completion_keeps_session_witness:
  "completion world_error_body (build_payload (load_history returning_session) ''hello'' None None)
     = Inl TypeError
   \<and> ChatSession_fetch env_configured world_error_body returning_session ''hello'' None None
     = (Inl TypeError, returning_session)"
  using failed_completion_keeps_session
          [of world_error_body returning_session "''hello''" None None TypeError env_configured]
        error_body_fails
  by blast

text \<open>
  C1 as stated fails twice. A response with a non-success status whose body still holds
  \<^verbatim>\<open>choices[0].message.content\<close> is taken as a reply, and both turns are persisted. A
  response whose message has no \<^verbatim>\<open>content\<close> yields \<^verbatim>\<open>undefined\<close> without raising, and
  both turns are persisted, the assistant's with that content.
\<close>

theorem unchecked_reply_is_persisted:
  "ai_gateway world_status_500 (build_payload (load_history fresh_session) ''hello'' None None)
     = Resolves False (Some (assistant_says ''Happy to help.''))
   \<and> stored_history fresh_session = None
   \<and> stored_history
       (snd (ChatSession_fetch env_configured world_status_500 fresh_session ''hello'' None None))
     = Some [\<lparr>turn_role = User, turn_content = JStr ''hello''\<rparr>,
             \<lparr>turn_role = Assistant, turn_content = JStr ''Happy to help.''\<rparr>]
   \<and> read_reply (completion_body (JObj [(''role'', JStr ''assistant'')])) = Inr JUndefined
   \<and> stored_history
       (snd (ChatSession_fetch env_configured world_no_content fresh_session ''hello'' None None))
     = Some [\<lparr>turn_role = User, turn_content = JStr ''hello''\<rparr>,
             \<lparr>turn_role = Assistant, turn_content = JUndefined\<rparr>]"
  by code_simp

text \<open>
  C2, as the code has it. When the completion call yields the reply \<open>r\<close> and the
  notification queue accepts the lead (or the message is not a high-value one, so that
  nothing is sent), the history persisted after the request is the one loaded before it
  followed by the user turn with the message and the assistant turn with the reply.
\<close>

theorem successful_chat_appends_two_turns:
  assumes "completion w (build_payload (load_history s) msg pg img) = Inr r"
    and "detectHighValueLead msg r \<longrightarrow> queue_accepts w"
  shows "stored_history (snd (ChatSession_fetch env w s msg pg img))
           = Some (load_history s @ [\<lparr>turn_role = User, turn_content = JStr msg\<rparr>,
                                     \<lparr>turn_role = Assistant, turn_content = r\<rparr>])"
  using fetch_on_success [OF assms] by blast

theorem successful_chat_appends_two_turns_witness:
  "completion world_up
     (build_payload (load_history returning_session) ''commercial'' (Some ''/services'') None)
     = Inr (JStr ''Happy to help.'')
   \<and> queue_accepts world_up
   \<and> stored_history
       (snd (ChatSession_fetch env_configured world_up returning_session ''commercial''
               (Some ''/services'') None))
     = Some (load_history returning_session
             @ [\<lparr>turn_role = User, turn_content = JStr ''commercial''\<rparr>,
                \<lparr>turn_role = Assistant, turn_content = JStr ''Happy to help.''\<rparr>])"
proof -
  have a: "queue_accepts world_up"
    by (simp add: world_up_def)
  then have q: "detectHighValueLead ''commercial'' (JStr ''Happy to help.'') \<longrightarrow> queue_accepts world_up"
    by simp
  show ?thesis
    using successful_chat_appends_two_turns
            [where w = world_up and s = returning_session and msg = "''commercial''"
               and pg = "Some ''/services''" and img = None and r = "JStr ''Happy to help.''"
               and env = env_configured, OF up_replies q]
          up_replies a
    by blast
qed

text \<open>
  C2 as stated fails when the queue rejects the lead of a high-value message: the
  completion call succeeded, and no turn is persisted.
\<close>

theorem enqueue_failure_loses_turns:
  "completion world_queue_down
     (build_payload (load_history fresh_session) ''commercial'' None None)
     = Inr (JStr ''Happy to help.'')
   \<and> stored_history fresh_session = None
   \<and> stored_history
       (snd (ChatSession_fetch env_configured world_queue_down fresh_session ''commercial''
               None None))
     = None"
  by code_simp

text \<open>
  C3, as the code has it. The chat request fails exactly when the completion call
  fails, or when it succeeded on a high-value message and the queue rejects the lead:
  \<^verbatim>\<open>NOTIFY_QUEUE.send\<close> is awaited with no handler, so its failure becomes the failure of
  the request and the session is left as it was. In every other case the caller gets
  the reply.
\<close>

theorem chat_fails_iff:
  "(isl (fst (ChatSession_fetch env w s msg pg img)) \<longleftrightarrow>
      (isl (completion w (build_payload (load_history s) msg pg img))
       \<or> (\<exists>r. completion w (build_payload (load_history s) msg pg img) = Inr r
              \<and> detectHighValueLead msg r \<and> \<not> queue_accepts w)))
   \<and> (completion w (build_payload (load_history s) msg pg img) = Inr r
        \<and> detectHighValueLead msg r \<and> \<not> queue_accepts w
      \<longrightarrow> ChatSession_fetch env w s msg pg img = (Inl QueueSendError, s))
   \<and> (completion w (build_payload (load_history s) msg pg img) = Inr r
        \<and> (detectHighValueLead msg r \<longrightarrow> queue_accepts w)
      \<longrightarrow> fst (ChatSession_fetch env w s msg pg img)
            = Inr \<lparr>resp_reply = r, resp_sessionId = session_id s,
                   resp_isHighValue = detectHighValueLead msg r\<rparr>)"
proof (intro conjI impI)
  show "isl (fst (ChatSession_fetch env w s msg pg img)) \<longleftrightarrow>
      (isl (completion w (build_payload (load_history s) msg pg img))
       \<or> (\<exists>r. completion w (build_payload (load_history s) msg pg img) = Inr r
              \<and> detectHighValueLead msg r \<and> \<not> queue_accepts w))"
    by (cases "completion w (build_payload (load_history s) msg pg img)")
       (auto simp: ChatSession_fetch_def Let_def)
next
  assume "completion w (build_payload (load_history s) msg pg img) = Inr r
        \<and> detectHighValueLead msg r \<and> \<not> queue_accepts w"
  then show "ChatSession_fetch env w s msg pg img = (Inl QueueSendError, s)"
    by (simp add: fetch_on_queue_failure)
next
  assume "completion w (build_payload (load_history s) msg pg img) = Inr r
        \<and> (detectHighValueLead msg r \<longrightarrow> queue_accepts w)"
  then show "fst (ChatSession_fetch env w s msg pg img)
            = Inr \<lparr>resp_reply = r, resp_sessionId = session_id s,
                   resp_isHighValue = detectHighValueLead msg r\<rparr>"
    using fetch_on_success by blast
qed

theorem chat_fails_iff_witness:
  "completion world_queue_down (build_payload (load_history fresh_session) ''hello'' None None)
     = Inr (JStr ''Happy to help.'')
   \<and> \<not> detectHighValueLead ''hello'' (JStr ''Happy to help.'')
   \<and> fst (ChatSession_fetch env_configured world_queue_down fresh_session ''hello'' None None)
     = Inr \<lparr>resp_reply = JStr ''Happy to help.'', resp_sessionId = session_id fresh_session,
            resp_isHighValue = detectHighValueLead ''hello'' (JStr ''Happy to help.'')\<rparr>"
proof -
  have n: "\<not> detectHighValueLead ''hello'' (JStr ''Happy to help.'')"
    by (rule detect_hello)
  then have "detectHighValueLead ''hello'' (JStr ''Happy to help.'') \<longrightarrow> queue_accepts world_queue_down"
    by simp
  with queue_down_replies n show ?thesis
    using chat_fails_iff [of env_configured world_queue_down fresh_session "''hello''" None None
            "JStr ''Happy to help.''"]
    by blast
qed

text \<open>
  C3 as stated fails: the completion call succeeded, the message is a high-value one,
  the queue rejects the lead, and the chat request fails.
\<close>

theorem enqueue_failure_fails_chat:
  "completion world_queue_down
     (build_payload (load_history returning_session) ''What does an estimate cost?''
        (Some ''/pricing'') None)
     = Inr (JStr ''Happy to help.'')
   \<and> detectHighValueLead ''What does an estimate cost?'' (JStr ''Happy to help.'')
   \<and> \<not> queue_accepts world_queue_down
   \<and> fst (ChatSession_fetch env_configured world_queue_down returning_session
             ''What does an estimate cost?'' (Some ''/pricing'') None)
     = Inl QueueSendError"
  by code_simp

text \<open>
  C10. The qualifier gives the same answer for one message under any two replies.
  Hence two chat requests with the same message, session and queue availability whose
  completion calls return different replies enqueue leads for the same messages, and
  fail or succeed alike.
\<close>

theorem reply_has_no_influence:
  "detectHighValueLead m r1 = detectHighValueLead m r2
   \<and> (completion w1 (build_payload (load_history s) m pg img) = Inr r1
        \<and> completion w2 (build_payload (load_history s) m pg img) = Inr r2
        \<and> queue_accepts w1 = queue_accepts w2
      \<longrightarrow> map lead_message (notify_queue (snd (ChatSession_fetch env w1 s m pg img)))
            = map lead_message (notify_queue (snd (ChatSession_fetch env w2 s m pg img)))
          \<and> isl (fst (ChatSession_fetch env w1 s m pg img))
            = isl (fst (ChatSession_fetch env w2 s m pg img)))"
proof (intro conjI impI)
  show d: "detectHighValueLead m r1 = detectHighValueLead m r2"
    by (simp add: detectHighValueLead_def)
  assume a: "completion w1 (build_payload (load_history s) m pg img) = Inr r1
        \<and> completion w2 (build_payload (load_history s) m pg img) = Inr r2
        \<and> queue_accepts w1 = queue_accepts w2"
  show "map lead_message (notify_queue (snd (ChatSession_fetch env w1 s m pg img)))
            = map lead_message (notify_queue (snd (ChatSession_fetch env w2 s m pg img)))"
    using a d by (auto simp: ChatSession_fetch_def Let_def)
  show "isl (fst (ChatSession_fetch env w1 s m pg img))
            = isl (fst (ChatSession_fetch env w2 s m pg img))"
    using a d by (auto simp: ChatSession_fetch_def Let_def)
qed

theorem reply_has_no_influence_witness:
  "completion world_up (build_payload (load_history fresh_session) ''commercial'' None None)
     = Inr (JStr ''Happy to help.'')
   \<and> completion world_terse (build_payload (load_history fresh_session) ''commercial'' None None)
     = Inr (JStr ''No.'')
   \<and> queue_accepts world_up = queue_accepts world_terse
   \<and> detectHighValueLead ''commercial'' (JStr ''Happy to help.'')
     = detectHighValueLead ''commercial'' (JStr ''No.'')
   \<and> map lead_message
       (notify_queue (snd (ChatSession_fetch env_configured world_up fresh_session
                             ''commercial'' None None)))
     = map lead_message
         (notify_queue (snd (ChatSession_fetch env_configured world_terse fresh_session
                               ''commercial'' None None)))"
proof -
  have q: "queue_accepts world_up = queue_accepts world_terse"
    by (simp add: world_terse_def)
  show ?thesis
    using reply_has_no_influence
            [of "''commercial''" "JStr ''Happy to help.''" "JStr ''No.''" world_up fresh_session
               None None world_terse env_configured]
          up_replies terse_replies q
    by blast
qed

section \<open>The queue consumer and its sinks\<close>

lemma trackGA4Event_requests:
  "snd (trackGA4Event env w ev tr)
     = tr @ (if truthy (GA_MEASUREMENT_ID env) then [GA4 ev] else [])"
  by (simp add: trackGA4Event_def)

lemma trackGoogleAdsConversion_requests:
  "snd (trackGoogleAdsConversion env w a v tr)
     = tr @ (if truthy (GOOGLE_ADS_CONVERSION_ID env) \<and> truthy (GA_MEASUREMENT_ID env)
             then [GA4 \<lparr>event_name = ''conversion'', event_category = ''google_ads'',
                        event_label = a, event_value = v, page_location = JUndefined\<rparr>]
             else [])"
  by (simp add: trackGoogleAdsConversion_def trackGA4Event_requests)

lemma sendEmail_requests:
  "snd (sendEmail env w t tr)
     = tr @ (if truthy (SENDGRID_API_KEY env) then [SendGrid t] else [])"
  by (simp add: sendEmail_def)

lemma sendSMS_cases:
  "sendSMS env w t tr =
     (if truthy (TWILIO_ACCOUNT_SID env) \<and> truthy (TWILIO_AUTH_TOKEN env)
         \<and> truthy (TWILIO_PHONE_NUMBER env)
      then (if btoa (basic_credentials env) = Inr ()
            then (Inr (response_ok (twilio w (length tr))), tr @ [Twilio t])
            else (Inl InvalidCharacterError, tr))
      else (Inr False, tr))"
  by (simp add: sendSMS_def btoa_def)

lemmas requests_simps =
  trackGA4Event_requests trackGoogleAdsConversion_requests sendEmail_requests

lemma analytics_world:
  "trackFormSubmission env w p pg tr = trackFormSubmission env w' p pg tr"
  "trackBusinessEvent env w n c l v tr = trackBusinessEvent env w' n c l v tr"
  "trackPhoneCall env w pg tr = trackPhoneCall env w' pg tr"
  by (simp_all add: trackFormSubmission_def trackBusinessEvent_def trackPhoneCall_def
        Let_def requests_simps split: sum.splits)

lemma handlers_world:
  "handleEstimateNotification env w p hp tr = handleEstimateNotification env w' p hp tr"
  "handleChatLeadNotification env w p tr = handleChatLeadNotification env w' p tr"
  "handleCallConversion env w p tr = handleCallConversion env w' p tr"
  by (simp_all add: handleEstimateNotification_def handleChatLeadNotification_def
        handleCallConversion_def sendSMS_cases requests_simps split: sum.splits)

lemma processNotification_world:
  "processNotification env w body tr = processNotification env w' body tr"
  by (simp add: processNotification_def handlers_world [where w = w and w' = w']
      split: option.splits sum.splits)

lemma queue_message_world:
  "queue_message env w body tr = queue_message env w' body tr"
  unfolding queue_message_def processNotification_world [where w = w and w' = w']
  by (simp add: analytics_world [where w = w and w' = w']
      split: prod.splits sum.splits option.splits)


lemma handler_requests:
  "snd (handleEstimateNotification env w p hp tr) =
     tr @ (if renders [name p, phone p, service p, name p, email p, phone p, phone p,
                       service p, message p, timestamp p, phone p] = Inr ()
           then (if hp \<and> truthy (TWILIO_ACCOUNT_SID env) \<and> truthy (TWILIO_AUTH_TOKEN env)
                    \<and> truthy (TWILIO_PHONE_NUMBER env)
                 then (if btoa (basic_credentials env) = Inr ()
                       then Twilio (EstimateSms hp)
                            # (if truthy (SENDGRID_API_KEY env) then [SendGrid (EstimateEmail hp)]
                               else [])
                       else [])
                 else (if truthy (SENDGRID_API_KEY env) then [SendGrid (EstimateEmail hp)]
                       else []))
           else [])"
  "snd (handleChatLeadNotification env w p tr) =
     tr @ (if and_then (substring_call (message p))
                 (\<lambda>u. renders [page p, message p, reply p, timestamp p]) = Inr ()
           then (if truthy (TWILIO_ACCOUNT_SID env) \<and> truthy (TWILIO_AUTH_TOKEN env)
                    \<and> truthy (TWILIO_PHONE_NUMBER env)
                 then (if btoa (basic_credentials env) = Inr ()
                       then Twilio ChatLeadSms
                            # (if truthy (SENDGRID_API_KEY env) then [SendGrid ChatLeadEmail]
                               else [])
                       else [])
                 else (if truthy (SENDGRID_API_KEY env) then [SendGrid ChatLeadEmail] else []))
           else [])"
  "snd (handleCallConversion env w p tr) =
     tr @ (if renders [page p, timestamp p] = Inr () \<and> truthy (SENDGRID_API_KEY env)
           then [SendGrid CallConversionEmail] else [])"
  by (auto simp add: handleEstimateNotification_def handleChatLeadNotification_def
        handleCallConversion_def sendSMS_cases requests_simps split: sum.splits)

lemma handler_results:
  "fst (handleEstimateNotification env w p hp tr) = Inr () \<longleftrightarrow>
     renders [name p, phone p, service p, name p, email p, phone p, phone p,
              service p, message p, timestamp p, phone p] = Inr ()
     \<and> (hp \<and> truthy (TWILIO_ACCOUNT_SID env) \<and> truthy (TWILIO_AUTH_TOKEN env)
           \<and> truthy (TWILIO_PHONE_NUMBER env)
         \<longrightarrow> btoa (basic_credentials env) = Inr ())"
  "fst (handleChatLeadNotification env w p tr) = Inr () \<longleftrightarrow>
     and_then (substring_call (message p))
       (\<lambda>u. renders [page p, message p, reply p, timestamp p]) = Inr ()
     \<and> (truthy (TWILIO_ACCOUNT_SID env) \<and> truthy (TWILIO_AUTH_TOKEN env)
           \<and> truthy (TWILIO_PHONE_NUMBER env)
         \<longrightarrow> btoa (basic_credentials env) = Inr ())"
  "fst (handleCallConversion env w p tr) = Inr () \<longleftrightarrow> renders [page p, timestamp p] = Inr ()"
  by (auto simp add: handleEstimateNotification_def handleChatLeadNotification_def
        handleCallConversion_def sendSMS_cases split: sum.splits)




lemma optional_string_cases:
  "optional_string v \<longleftrightarrow> v = JUndefined \<or> (\<exists>s. v = JStr s)"
  by (cases v) (simp_all add: optional_string_def)

lemma optional_string_renders: "optional_string v \<Longrightarrow> \<not> ToString_raises v"
  by (auto simp: optional_string_cases)

lemma optional_string_lower: "optional_string v \<Longrightarrow> \<exists>s. js_toLowerCase (js_or v (JStr [])) = Inr s"
  by (auto simp: optional_string_cases js_toLowerCase_def js_or_def js_truthy_def)

lemma optional_string_substring: "optional_string v \<Longrightarrow> substring_call v = Inr ()"
  by (auto simp: optional_string_cases substring_call_def)

lemma number_renders: "(case v of JNum n \<Rightarrow> True | _ \<Rightarrow> False) \<Longrightarrow> \<not> ToString_raises v"
  by (cases v) simp_all

lemma isCommercialLead_cases:
  "isCommercialLead p =
     (case (js_toLowerCase (js_or (service p) (JStr [])),
            js_toLowerCase (js_or (message p) (JStr []))) of
        (Inr s, Inr m) \<Rightarrow>
          Inr (\<exists>k \<in> set [''commercial'', ''business'', ''office'', ''restaurant'', ''store'',
                          ''warehouse'', ''retail''].
                 (\<exists>a b. s = a @ k @ b) \<or> (\<exists>a b. m = a @ k @ b))
      | _ \<Rightarrow> Inl TypeError)"
  unfolding isCommercialLead_def Let_def and_then_def list_ex_iff includes_str_iff
  by (auto simp: js_toLowerCase_def split: sum.splits js.splits)

lemma analytics_isCommercialLead_eq: "AnalyticsService_isCommercialLead p = isCommercialLead p"
  by (simp add: AnalyticsService_isCommercialLead_def isCommercialLead_def)

lemma conforms_commercial:
  assumes "optional_string (service p)" and "optional_string (message p)"
  shows "\<exists>c. isCommercialLead p = Inr c"
proof -
  from assms obtain s m where
    "js_toLowerCase (js_or (service p) (JStr [])) = Inr s"
    "js_toLowerCase (js_or (message p) (JStr [])) = Inr m"
    using optional_string_lower by blast
  then show ?thesis by (simp add: isCommercialLead_def and_then_def)
qed

lemma conforms_priority:
  assumes "optional_string (service p)" and "optional_string (message p)"
  shows "\<exists>hp. isHighPriority p = Inr hp"
  using conforms_commercial [OF assms] by (auto simp: isHighPriority_def)

lemma conforms_lead_value:
  assumes "optional_string (service p)" and "optional_string (message p)"
  shows "\<exists>v. calculateLeadValue p = Inr v"
proof -
  from assms obtain s m where
    "js_toLowerCase (js_or (service p) (JStr [])) = Inr s"
    "js_toLowerCase (js_or (message p) (JStr [])) = Inr m"
    using optional_string_lower by blast
  moreover obtain c where "isCommercialLead p = Inr c"
    using conforms_commercial [OF assms] by blast
  ultimately show ?thesis
    by (simp add: calculateLeadValue_def analytics_isCommercialLead_eq and_then_def)
qed

lemma conforms_processed:
  assumes "conforms p" and "btoa (basic_credentials env) = Inr ()"
  shows "fst (processNotification env w (Some p) tr) = Inr ()"
proof -
  from assms(1) have os: "optional_string (name p)" "optional_string (email p)"
    "optional_string (phone p)" "optional_string (service p)" "optional_string (message p)"
    "optional_string (reply p)" "optional_string (page p)"
    and ts: "case timestamp p of JNum n \<Rightarrow> True | _ \<Rightarrow> False"
    by (simp_all add: conforms_def)
  obtain hp where hp: "isHighPriority p = Inr hp"
    using conforms_priority os by blast
  have r: "\<not> ToString_raises (name p)" "\<not> ToString_raises (email p)"
    "\<not> ToString_raises (phone p)" "\<not> ToString_raises (service p)"
    "\<not> ToString_raises (message p)" "\<not> ToString_raises (reply p)"
    "\<not> ToString_raises (page p)" "\<not> ToString_raises (timestamp p)"
    using os ts by (simp_all add: optional_string_renders number_renders)
  have sub: "substring_call (message p) = Inr ()"
    using os by (simp add: optional_string_substring)
  show ?thesis
    by (simp add: processNotification_def hp handler_results renders_def r sub and_then_def
          assms(2))
qed

lemma queue_message_unfold:
  "queue_message env w (Some p) tr =
     (let r = processNotification env w (Some p) tr; tr1 = snd r
      in if fst r \<noteq> Inr () then (Retry, tr1)
         else if ptype p = JStr ''estimate_request''
         then (case trackFormSubmission env w p (js_or (page p) (JStr ''unknown'')) tr1 of
                 (Inl e, tr2) \<Rightarrow> (Retry, tr2)
               | (Inr v, tr2) \<Rightarrow> (Ack, tr2))
         else if ptype p = JStr ''high_value_chat_lead''
         then (case substring_call (message p) of
                 Inl e \<Rightarrow> (Retry, tr1)
               | Inr v \<Rightarrow>
                   (Ack, trackBusinessEvent env w ''high_value_chat_detected''
                           ''lead_qualification'' ''chat_engagement'' (Some 25) tr1))
         else if ptype p = JStr ''call_conversion''
         then (Ack, trackPhoneCall env w (js_or (page p) (JStr ''unknown'')) tr1)
         else (Ack, tr1))"
  by (cases "processNotification env w (Some p) tr")
     (auto simp: queue_message_def Let_def split: sum.splits)

lemma queue_message_null: "queue_message env w None tr = (Retry, tr)"
  by (simp add: queue_message_def processNotification_def)

lemma queue_message_requests:
  "\<exists>gs. snd (queue_message env w (Some p) tr) = snd (processNotification env w (Some p) tr) @ gs
        \<and> (\<forall>g \<in> set gs. \<exists>e. g = GA4 e)"
  unfolding queue_message_unfold
  by (auto simp add: trackFormSubmission_def trackBusinessEvent_def trackPhoneCall_def
        Let_def requests_simps split: sum.splits)

lemma conforms_acknowledged:
  assumes "conforms p" and "btoa (basic_credentials env) = Inr ()"
  shows "fst (queue_message env w (Some p) tr) = Ack"
proof -
  from assms(1) have os: "optional_string (service p)" "optional_string (message p)"
    by (simp_all add: conforms_def)
  obtain v where v: "calculateLeadValue p = Inr v" using conforms_lead_value os by blast
  obtain c where c: "isCommercialLead p = Inr c" using conforms_commercial os by blast
  have sub: "substring_call (message p) = Inr ()"
    using os by (simp add: optional_string_substring)
  show ?thesis
    unfolding queue_message_unfold
    by (simp add: conforms_processed [OF assms] Let_def trackFormSubmission_def v c sub
          analytics_isCommercialLead_eq and_then_def)
qed


lemma processNotification_trace:
  "processNotification env w body tr
     = (fst (processNotification env w body []), tr @ snd (processNotification env w body []))"
proof (cases body)
  case None
  then show ?thesis by (simp add: processNotification_def)
next
  case (Some p)
  have h: "\<And>hp. handleEstimateNotification env w p hp tr
             = (fst (handleEstimateNotification env w p hp []),
                tr @ snd (handleEstimateNotification env w p hp []))"
    "handleChatLeadNotification env w p tr
       = (fst (handleChatLeadNotification env w p []),
          tr @ snd (handleChatLeadNotification env w p []))"
    "handleCallConversion env w p tr
       = (fst (handleCallConversion env w p []), tr @ snd (handleCallConversion env w p []))"
    by (auto simp add: handleEstimateNotification_def handleChatLeadNotification_def
          handleCallConversion_def sendSMS_cases requests_simps split: sum.splits)
  show ?thesis
    unfolding Some processNotification_def
    by (simp add: h [symmetric] split: sum.splits)
qed

lemma queue_message_trace:
  "queue_message env w body tr
     = (fst (queue_message env w body []), tr @ snd (queue_message env w body []))"
proof (cases body)
  case None
  then show ?thesis by (simp add: queue_message_null)
next
  case (Some p)
  obtain r xs where r: "processNotification env w (Some p) [] = (r, xs)"
    by (cases "processNotification env w (Some p) []")
  then have r': "processNotification env w (Some p) tr = (r, tr @ xs)"
    using processNotification_trace [of env w "Some p" tr] by simp
  show ?thesis
    unfolding Some queue_message_unfold r r'
    by (auto simp add: Let_def trackFormSubmission_def trackBusinessEvent_def trackPhoneCall_def
          requests_simps split: sum.splits)
qed

lemma queue_dispositions:
  "fst (queue env w bodies tr)
     = map (\<lambda>body. fst (queue_message env w (read_body body) [])) bodies"
proof (induction bodies arbitrary: tr)
  case Nil
  show ?case by simp
next
  case (Cons body rest)
  have "fst (queue env w (body # rest) tr)
          = fst (queue_message env w (read_body body) tr)
            # fst (queue env w rest (snd (queue_message env w (read_body body) tr)))"
    by (simp add: split_beta)
  moreover have "fst (queue_message env w (read_body body) tr)
                   = fst (queue_message env w (read_body body) [])"
    using queue_message_trace [of env w "read_body body" tr] by simp
  ultimately show ?case by (simp add: Cons.IH)
qed



lemma call_conversion_no_sms:
  assumes "ptype p = JStr ''call_conversion''"
  shows "Twilio t \<notin> set (snd (queue_message env w (Some p) []))"
proof
  assume a: "Twilio t \<in> set (snd (queue_message env w (Some p) []))"
  obtain gs where gs: "snd (queue_message env w (Some p) [])
                         = snd (processNotification env w (Some p) []) @ gs"
    and ga: "\<forall>g \<in> set gs. \<exists>e. g = GA4 e"
    using queue_message_requests by blast
  from ga have "Twilio t \<notin> set gs" by auto
  with a gs have "Twilio t \<in> set (snd (processNotification env w (Some p) []))" by simp
  with assms show False
    by (auto simp add: processNotification_def handler_requests split: sum.splits if_splits)
qed



lemma isCommercialLead_error: "isCommercialLead p = Inl e \<Longrightarrow> e = TypeError"
  by (auto simp: isCommercialLead_def and_then_def js_toLowerCase_def split: sum.splits js.splits)






text \<open>
  C6, as the code has it. A \<^verbatim>\<open>high_value_chat_lead\<close> is always of high priority. An
  \<^verbatim>\<open>estimate_request\<close> is of high priority exactly when its \<^verbatim>\<open>leadValue\<close> is \<^verbatim>\<open>high\<close> or
  the commercial keyword heuristic matches its service or message. For a
  \<^verbatim>\<open>call_conversion\<close> the flag is computed the same way and never used: no SMS request
  is made for it. The heuristic is a case-insensitive substring match of seven keywords
  against the service and the message; it answers on every payload whose service and
  message are absent or strings, and where it raises instead, the flag is true if
  \<^verbatim>\<open>leadValue\<close> is \<^verbatim>\<open>high\<close> and raises otherwise.
\<close>

theorem priority_classification:
  "(ptype p = JStr ''high_value_chat_lead'' \<longrightarrow> isHighPriority p = Inr True)
   \<and> (ptype p = JStr ''estimate_request'' \<and> isCommercialLead p = Inr c \<longrightarrow>
        isHighPriority p = Inr (leadValue p = JStr ''high'' \<or> c))
   \<and> (ptype p = JStr ''call_conversion'' \<and> isCommercialLead p = Inr c \<longrightarrow>
        isHighPriority p = Inr (leadValue p = JStr ''high'' \<or> c))
   \<and> (ptype p = JStr ''call_conversion'' \<longrightarrow>
        (\<forall>t. Twilio t \<notin> set (snd (queue_message env w (Some p) []))))
   \<and> (js_toLowerCase (js_or (service p) (JStr [])) = Inr s
        \<and> js_toLowerCase (js_or (message p) (JStr [])) = Inr m \<longrightarrow>
        isCommercialLead p =
          Inr (\<exists>k \<in> set [''commercial'', ''business'', ''office'', ''restaurant'', ''store'',
                          ''warehouse'', ''retail''].
                 (\<exists>a b. s = a @ k @ b) \<or> (\<exists>a b. m = a @ k @ b)))
   \<and> (optional_string (service p) \<and> optional_string (message p) \<longrightarrow>
        js_toLowerCase (js_or (service p) (JStr []))
          = Inr (toLowerCase (case service p of JStr x \<Rightarrow> x | _ \<Rightarrow> []))
        \<and> js_toLowerCase (js_or (message p) (JStr []))
          = Inr (toLowerCase (case message p of JStr x \<Rightarrow> x | _ \<Rightarrow> [])))
   \<and> (ptype p \<noteq> JStr ''high_value_chat_lead'' \<and> isCommercialLead p = Inl e \<longrightarrow>
        isHighPriority p = (if leadValue p = JStr ''high'' then Inr True else Inl e))"
proof (intro conjI impI allI)
  show "isHighPriority p = Inr True" if "ptype p = JStr ''high_value_chat_lead''"
    using that by (simp add: isHighPriority_def)
  show "isHighPriority p = Inr (leadValue p = JStr ''high'' \<or> c)"
    if "ptype p = JStr ''estimate_request'' \<and> isCommercialLead p = Inr c"
    using that by (simp add: isHighPriority_def)
  show "isHighPriority p = Inr (leadValue p = JStr ''high'' \<or> c)"
    if "ptype p = JStr ''call_conversion'' \<and> isCommercialLead p = Inr c"
    using that by (simp add: isHighPriority_def)
  show "Twilio t \<notin> set (snd (queue_message env w (Some p) []))"
    if "ptype p = JStr ''call_conversion''" for t
    using that by (rule call_conversion_no_sms)
  show "isCommercialLead p =
          Inr (\<exists>k \<in> set [''commercial'', ''business'', ''office'', ''restaurant'', ''store'',
                          ''warehouse'', ''retail''].
                 (\<exists>a b. s = a @ k @ b) \<or> (\<exists>a b. m = a @ k @ b))"
    if "js_toLowerCase (js_or (service p) (JStr [])) = Inr s
        \<and> js_toLowerCase (js_or (message p) (JStr [])) = Inr m"
    using that by (simp add: isCommercialLead_cases)
  assume os: "optional_string (service p) \<and> optional_string (message p)"
  show "js_toLowerCase (js_or (service p) (JStr []))
          = Inr (toLowerCase (case service p of JStr x \<Rightarrow> x | _ \<Rightarrow> []))"
    using os by (auto simp: optional_string_cases js_toLowerCase_def js_or_def js_truthy_def
                   toLowerCase_def)
  show "js_toLowerCase (js_or (message p) (JStr []))
          = Inr (toLowerCase (case message p of JStr x \<Rightarrow> x | _ \<Rightarrow> []))"
    using os by (auto simp: optional_string_cases js_toLowerCase_def js_or_def js_truthy_def
                   toLowerCase_def)
next
  assume "ptype p \<noteq> JStr ''high_value_chat_lead'' \<and> isCommercialLead p = Inl e"
  then show "isHighPriority p = (if leadValue p = JStr ''high'' then Inr True else Inl e)"
    by (simp add: isHighPriority_def)
qed

lemma office_fields:
  "ptype payload_office = JStr ''estimate_request''"
  "isCommercialLead payload_office = Inr True"
  by code_simp+

lemma call_type: "ptype payload_call = JStr ''call_conversion''"
  by code_simp

theorem priority_classification_witness:
  "ptype payload_office = JStr ''estimate_request''
   \<and> isCommercialLead payload_office = Inr True
   \<and> isHighPriority payload_office = Inr True
   \<and> ptype payload_call = JStr ''call_conversion''
   \<and> Twilio ChatLeadSms \<notin> set (snd (queue_message env_configured world_up (Some payload_call) []))"
  using priority_classification [where p = payload_office and c = True]
        priority_classification [where p = payload_call and env = env_configured and w = world_up]
        office_fields call_type
  by simp

text \<open>
  C6 as stated fails: an estimate request flagged \<^verbatim>\<open>leadValue: 'high'\<close> is of high
  priority although the keyword heuristic does not match, and the flag computed for a
  call conversion with that field is true.
\<close>

theorem flagged_estimate_is_high_priority:
  "ptype payload_flagged = JStr ''estimate_request''
   \<and> isCommercialLead payload_flagged = Inr False
   \<and> isHighPriority payload_flagged = Inr True
   \<and> ptype payload_call = JStr ''call_conversion''
   \<and> isHighPriority payload_call = Inr True"
  by code_simp











text \<open>
  C8. Replacing the SMS and email sinks by any others changes neither the disposition
  of a message nor the requests made for it, so a failing channel neither stops the
  other channel's attempt nor turns an acknowledgement into a retry. A payload with the
  declared types is acknowledged whatever the sinks answer, provided \<^verbatim>\<open>btoa\<close> accepts
  the Twilio credentials. A rejected request makes \<^verbatim>\<open>sendSMS\<close> and \<^verbatim>\<open>sendEmail\<close> answer
  \<^verbatim>\<open>false\<close>.
\<close>

theorem channel_failure_is_isolated:
  "queue_message env (w\<lparr>twilio := sms, sendgrid := mail\<rparr>) body tr = queue_message env w body tr
   \<and> (fst (queue_message env w body tr) = Ack \<longrightarrow>
        fst (queue_message env (w\<lparr>twilio := (\<lambda>n. Rejects)\<rparr>) body tr) = Ack)
   \<and> (conforms p \<and> btoa (basic_credentials env) = Inr () \<longrightarrow>
        fst (queue_message env w (Some p) tr) = Ack)
   \<and> (btoa (basic_credentials env) = Inr () \<longrightarrow>
        fst (sendSMS env (w\<lparr>twilio := (\<lambda>n. Rejects)\<rparr>) t tr) = Inr False)
   \<and> \<not> fst (sendEmail env (w\<lparr>sendgrid := (\<lambda>n. Rejects)\<rparr>) t' tr)"
proof (intro conjI impI)
  show "queue_message env (w\<lparr>twilio := sms, sendgrid := mail\<rparr>) body tr
          = queue_message env w body tr"
    by (rule queue_message_world)
  show "fst (queue_message env (w\<lparr>twilio := (\<lambda>n. Rejects)\<rparr>) body tr) = Ack"
    if "fst (queue_message env w body tr) = Ack"
    using that queue_message_world [of env "w\<lparr>twilio := (\<lambda>n. Rejects)\<rparr>" body tr w] by simp
  show "fst (queue_message env w (Some p) tr) = Ack"
    if "conforms p \<and> btoa (basic_credentials env) = Inr ()"
    using that conforms_acknowledged by blast
  show "fst (sendSMS env (w\<lparr>twilio := (\<lambda>n. Rejects)\<rparr>) t tr) = Inr False"
    if "btoa (basic_credentials env) = Inr ()"
    using that by (simp add: sendSMS_cases response_ok_def)
  show "\<not> fst (sendEmail env (w\<lparr>sendgrid := (\<lambda>n. Rejects)\<rparr>) t' tr)"
    by (simp add: sendEmail_def response_ok_def)
qed

lemma sms_down_eq:
  "world_up\<lparr>twilio := (\<lambda>n. Rejects), sendgrid := (\<lambda>n. Resolves True None)\<rparr> = world_sms_down"
  by (simp add: world_sms_down_def world_up_def)

lemma office_conforms:
  "conforms payload_office"
  "btoa (basic_credentials env_configured) = Inr ()"
  by code_simp+

theorem channel_failure_is_isolated_witness:
  "conforms payload_office
   \<and> btoa (basic_credentials env_configured) = Inr ()
   \<and> queue_message env_configured world_sms_down (Some payload_office) []
     = queue_message env_configured world_up (Some payload_office) []
   \<and> fst (queue_message env_configured world_sms_down (Some payload_office) []) = Ack"
  using channel_failure_is_isolated
          [where env = env_configured and w = world_up and sms = "\<lambda>n. Rejects"
             and mail = "\<lambda>n. Resolves True None" and body = "Some payload_office"
             and tr = "[]" and p = payload_office]
        office_conforms
  unfolding sms_down_eq by simp

text \<open>
  C9. Replacing the analytics sink by any other changes neither the disposition of a
  message nor the requests made for it; a message acknowledged with one analytics sink
  is acknowledged with a sink that rejects every request, for which \<^verbatim>\<open>trackGA4Event\<close>
  answers \<^verbatim>\<open>false\<close>.
\<close>

theorem analytics_failure_is_isolated:
  "queue_message env (w\<lparr>ga4 := g\<rparr>) body tr = queue_message env w body tr
   \<and> (fst (queue_message env w body tr) = Ack \<longrightarrow>
        fst (queue_message env (w\<lparr>ga4 := (\<lambda>n. Rejects)\<rparr>) body tr) = Ack)
   \<and> \<not> fst (trackGA4Event env (w\<lparr>ga4 := (\<lambda>n. Rejects)\<rparr>) ev tr)"
proof (intro conjI impI)
  show "queue_message env (w\<lparr>ga4 := g\<rparr>) body tr = queue_message env w body tr"
    by (rule queue_message_world)
  show "fst (queue_message env (w\<lparr>ga4 := (\<lambda>n. Rejects)\<rparr>) body tr) = Ack"
    if "fst (queue_message env w body tr) = Ack"
    using that queue_message_world [of env "w\<lparr>ga4 := (\<lambda>n. Rejects)\<rparr>" body tr w] by simp
  show "\<not> fst (trackGA4Event env (w\<lparr>ga4 := (\<lambda>n. Rejects)\<rparr>) ev tr)"
    by (simp add: trackGA4Event_def response_ok_def)
qed

lemma ga_down_eq: "world_up\<lparr>ga4 := (\<lambda>n. Rejects)\<rparr> = world_ga_down"
  by (simp add: world_ga_down_def)

lemma chat_lead_acked_up:
  "fst (queue_message env_configured world_up (Some payload_chat_lead) []) = Ack"
  by code_simp

theorem analytics_failure_is_isolated_witness:
  "fst (queue_message env_configured world_up (Some payload_chat_lead) []) = Ack
   \<and> fst (queue_message env_configured world_ga_down (Some payload_chat_lead) []) = Ack"
  using analytics_failure_is_isolated
          [where env = env_configured and w = world_up and body = "Some payload_chat_lead"
             and tr = "[]"]
        chat_lead_acked_up
  unfolding ga_down_eq by blast

end
